theory Spec2Isabelle
  imports Main
begin

unbundle bit_operations_syntax

section \<open>Python strings\<close>

text \<open>
  Python \<open>str\<close> values are modelled as HOL strings holding ASCII text. The string
  operations the rule engine relies on are written out: \<open>str.strip()\<close> removes
  leading and trailing white space (the ASCII characters for which \<open>str.isspace\<close>
  holds), \<open>str.lower()\<close> maps \<open>A\<close>..\<open>Z\<close> to \<open>a\<close>..\<open>z\<close>,
  \<open>str.endswith\<close> tests a suffix, and \<open>a in b\<close> is substring containment.
  \<open>x or ""\<close> on an optional string is \<open>or_empty\<close>.
\<close>

definition py_isspace :: "char \<Rightarrow> bool" where
  "py_isspace c = (let n = (of_char c :: nat) in (9 \<le> n \<and> n \<le> 13) \<or> (28 \<le> n \<and> n \<le> 32))"

definition py_strip :: "string \<Rightarrow> string" where
  "py_strip s = rev (dropWhile py_isspace (rev (dropWhile py_isspace s)))"

definition lower_char :: "char \<Rightarrow> char" where
  "lower_char c = (let n = (of_char c :: nat) in if 65 \<le> n \<and> n \<le> 90 then char_of (n + 32) else c)"

definition py_lower :: "string \<Rightarrow> string" where
  "py_lower s = map lower_char s"

definition py_endswith :: "string \<Rightarrow> string \<Rightarrow> bool" where
  "py_endswith s suf = (length suf \<le> length s \<and> drop (length s - length suf) s = suf)"

fun py_in :: "string \<Rightarrow> string \<Rightarrow> bool" where
  "py_in sub [] = (sub = [])"
| "py_in sub (c # cs) = (take (length sub) (c # cs) = sub \<or> py_in sub cs)"

fun or_empty :: "string option \<Rightarrow> string" where
  "or_empty None = []"
| "or_empty (Some s) = s"

text \<open>\<open>a or b\<close> on optional strings: the first operand unless it is \<open>None\<close> or empty.\<close>

fun py_or :: "string option \<Rightarrow> string option \<Rightarrow> string option" where
  "py_or None b = b"
| "py_or (Some s) b = (if s = [] then b else Some s)"

text \<open>Decimal rendering of integers, as an f-string prints them.\<close>

definition digit_char :: "nat \<Rightarrow> char" where
  "digit_char d = ''0123456789'' ! d"

function show_nat :: "nat \<Rightarrow> string" where
  "show_nat n = (if n < 10 then [digit_char n] else show_nat (n div 10) @ [digit_char (n mod 10)])"
  by pat_completeness auto
termination
  by (relation "measure id") auto

declare show_nat.simps [simp del]

definition show_int :: "int \<Rightarrow> string" where
  "show_int i = (if i < 0 then CHR ''-'' # show_nat (nat (- i)) else show_nat (nat i))"

section \<open>Monitor fingerprints (monitor\_fingerprint.py)\<close>

text \<open>
  A fingerprint is the dict \<open>{"primary": ..., "secondary": ...}\<close> that
  \<open>generate_fingerprint\<close> returns.
\<close>

record fingerprint =
  primary :: string
  secondary :: string

definition fingerprints_match :: "fingerprint \<Rightarrow> fingerprint \<Rightarrow> bool \<Rightarrow> bool \<times> string" where
  "fingerprints_match fp1 fp2 strict =
     (if primary fp1 = primary fp2 then (True, ''connector_and_resolution_match'')
      else if strict then (False, ''primary_mismatch_strict'')
      else if secondary fp1 = secondary fp2 then (True, ''resolution_match'')
      else (False, ''no_match''))"

section \<open>Window style bits (window\_manager.py)\<close>

text \<open>
  The style word is the Python integer that \<open>GetWindowLong(hwnd, GWL_STYLE)\<close> returns,
  a signed 32-bit value; Python's \<open>&\<close> on integers is two's complement on unbounded
  integers, as \<open>AND\<close> on \<open>int\<close> is. The style constants are those of the Win32 API, as
  the repository's own scripts write them out.
\<close>

definition WS_POPUP :: int where "WS_POPUP = 0x80000000"
definition WS_CAPTION :: int where "WS_CAPTION = 0x00C00000"
definition WS_THICKFRAME :: int where "WS_THICKFRAME = 0x00040000"
definition WS_MINIMIZEBOX :: int where "WS_MINIMIZEBOX = 0x00020000"
definition WS_MAXIMIZEBOX :: int where "WS_MAXIMIZEBOX = 0x00010000"

text \<open>
  The body of \<open>is_window_fullscreen\<close> once the style word has been read: the
  conversion of a negative value to unsigned, the three flags, and the verdict.
\<close>

definition fullscreen_of_style :: "int \<Rightarrow> bool" where
  "fullscreen_of_style style0 =
     (let style = (if style0 < 0 then style0 AND 0xFFFFFFFF else style0);
          has_popup = (style AND WS_POPUP \<noteq> 0);
          has_caption = (style AND WS_CAPTION \<noteq> 0);
          has_border = (style AND WS_THICKFRAME \<noteq> 0)
      in \<not> has_caption \<and> \<not> has_border)"

section \<open>Exceptions\<close>

text \<open>
  A Python exception is a value: \<open>LayoutError\<close> is the repository's own class,
  \<open>KeyError\<close> is raised by \<open>d[k]\<close> on a missing key, \<open>AttributeError\<close> by a
  method call on \<open>None\<close>, and \<open>OSError\<close> stands for any exception a Win32 call
  raises. Each carries \<open>str(e)\<close>.
\<close>

datatype exn = LayoutError string | KeyError string | AttributeError string | OSError string

fun exn_str :: "exn \<Rightarrow> string" where
  "exn_str (LayoutError m) = m"
| "exn_str (KeyError k) = [CHR 0x27] @ k @ [CHR 0x27]"
| "exn_str (AttributeError m) = m"
| "exn_str (OSError m) = m"

section \<open>Monitors (monitor\_manager.py, config\_manager.py)\<close>

text \<open>
  \<open>connected_monitors\<close> is the dict from monitor id to the screeninfo object of the
  last detection pass, in insertion order; \<open>known_monitors\<close> is the persisted list of
  monitor dicts of the config manager.
\<close>

record monitor_obj =
  mon_x :: int
  mon_y :: int
  mon_width :: int
  mon_height :: int

record known_monitor =
  km_id :: string
  km_name :: string
  km_width :: int
  km_height :: int

record monitor_manager =
  connected_monitors :: "(string \<times> monitor_obj) list"
  known_monitors :: "known_monitor list"

definition is_monitor_connected :: "monitor_manager \<Rightarrow> string \<Rightarrow> bool" where
  "is_monitor_connected mm monitor_id = (map_of (connected_monitors mm) monitor_id \<noteq> None)"

definition get_connected_monitor_ids :: "monitor_manager \<Rightarrow> string list" where
  "get_connected_monitor_ids mm = map fst (connected_monitors mm)"

definition get_connected_monitor :: "monitor_manager \<Rightarrow> string \<Rightarrow> monitor_obj option" where
  "get_connected_monitor mm monitor_id = map_of (connected_monitors mm) monitor_id"

definition get_monitor :: "monitor_manager \<Rightarrow> string \<Rightarrow> known_monitor option" where
  "get_monitor mm monitor_id = find (\<lambda>monitor. km_id monitor = monitor_id) (known_monitors mm)"

fun get_monitor_by_position_loop :: "(string \<times> monitor_obj) list \<Rightarrow> int \<Rightarrow> int \<Rightarrow> string option" where
  "get_monitor_by_position_loop [] x y = None"
| "get_monitor_by_position_loop ((monitor_id, monitor) # rest) x y =
     (if mon_x monitor \<le> x \<and> x < mon_x monitor + mon_width monitor
         \<and> mon_y monitor \<le> y \<and> y < mon_y monitor + mon_height monitor
      then Some monitor_id
      else get_monitor_by_position_loop rest x y)"

definition get_monitor_by_position :: "monitor_manager \<Rightarrow> int \<Rightarrow> int \<Rightarrow> string option" where
  "get_monitor_by_position mm x y = get_monitor_by_position_loop (connected_monitors mm) x y"

section \<open>Screen configuration and requirements (layout\_matcher.py)\<close>

text \<open>
  An entry of the current screen configuration, and a layout's screen requirements as
  read from its JSON file. A key that may be missing from a JSON object is an
  \<open>option\<close> field (\<open>None\<close>: the key is absent); a key that is present holds a value
  of the type the data model gives it.
\<close>

record screen_config =
  sc_display_number :: int
  sc_orientation :: string
  sc_monitor_id :: string
  sc_width :: int
  sc_height :: int
  sc_name :: string

record required_screen =
  rs_display_number :: "int option"
  rs_orientation :: "string option"

record screen_req =
  total_screens :: "int option"
  screens :: "required_screen list option"

definition is_digit :: "char \<Rightarrow> bool" where
  "is_digit c = (let n = (of_char c :: nat) in 48 \<le> n \<and> n \<le> 57)"

definition digits_value :: "string \<Rightarrow> nat" where
  "digits_value ds = foldl (\<lambda>acc c. 10 * acc + (of_char c - 48)) 0 ds"

text \<open>\<open>re.search(r"DISPLAY(\d+)", monitor_name)\<close>: the leftmost match, digits greedy.\<close>

fun extract_display_number :: "string \<Rightarrow> int option" where
  "extract_display_number [] = None"
| "extract_display_number (c # cs) =
     (let digits = takeWhile is_digit (drop 7 (c # cs))
      in if take 7 (c # cs) = ''DISPLAY'' \<and> digits \<noteq> []
         then Some (int (digits_value digits))
         else extract_display_number cs)"

definition get_orientation :: "int \<Rightarrow> int \<Rightarrow> string" where
  "get_orientation width height = (if width > height then ''horizontal'' else ''vertical'')"

definition screen_config_of :: "monitor_manager \<Rightarrow> string \<Rightarrow> screen_config option" where
  "screen_config_of mm monitor_id =
     (case get_monitor mm monitor_id of
        None \<Rightarrow> None
      | Some monitor \<Rightarrow>
          (case extract_display_number (km_name monitor) of
             None \<Rightarrow> None
           | Some display_num \<Rightarrow>
               Some \<lparr> sc_display_number = display_num,
                      sc_orientation = get_orientation (km_width monitor) (km_height monitor),
                      sc_monitor_id = monitor_id,
                      sc_width = km_width monitor,
                      sc_height = km_height monitor,
                      sc_name = km_name monitor \<rparr>))"

definition get_screen_configuration :: "monitor_manager \<Rightarrow> screen_config list" where
  "get_screen_configuration mm =
     sort_key sc_display_number
       (List.map_filter (screen_config_of mm) (get_connected_monitor_ids mm))"

definition required_screens :: "screen_req \<Rightarrow> required_screen list" where
  "required_screens req = (case screens req of None \<Rightarrow> [] | Some xs \<Rightarrow> xs)"

fun check_required_screens :: "screen_config list \<Rightarrow> required_screen list \<Rightarrow> exn + (bool \<times> string)" where
  "check_required_screens current_config [] = Inr (True, ''All requirements met'')"
| "check_required_screens current_config (required_screen # rest) =
     (case rs_display_number required_screen of
        None \<Rightarrow> Inl (KeyError ''display_number'')
      | Some display_num \<Rightarrow>
     (case rs_orientation required_screen of
        None \<Rightarrow> Inl (KeyError ''orientation'')
      | Some required_orientation \<Rightarrow>
     (case find (\<lambda>s. sc_display_number s = display_num) current_config of
        None \<Rightarrow>
          Inr (False, ''DISPLAY'' @ show_int display_num @ '' not found (required for layout)'')
      | Some current_screen \<Rightarrow>
          if sc_orientation current_screen \<noteq> required_orientation
          then Inr (False, ''DISPLAY'' @ show_int display_num @ '' is ''
                      @ sc_orientation current_screen @ '', but layout needs ''
                      @ required_orientation)
          else check_required_screens current_config rest)))"

definition matches_requirements :: "screen_config list \<Rightarrow> screen_req \<Rightarrow> exn + (bool \<times> string)" where
  "matches_requirements current_config layout_requirements =
     (case total_screens layout_requirements of
        Some required_total \<Rightarrow>
          if int (length current_config) \<noteq> required_total
          then Inr (False, ''Need exactly '' @ show_int required_total @ '' screen(s), but ''
                      @ show_nat (length current_config) @ '' connected'')
          else check_required_screens current_config (required_screens layout_requirements)
      | None \<Rightarrow> check_required_screens current_config (required_screens layout_requirements))"

text \<open>A Python dict in insertion order: storing under an existing key keeps its place.\<close>

fun dict_set :: "'k \<Rightarrow> 'v \<Rightarrow> ('k \<times> 'v) list \<Rightarrow> ('k \<times> 'v) list" where
  "dict_set k v [] = [(k, v)]"
| "dict_set k v ((k', v') # rest) =
     (if k = k' then (k, v) # rest else (k', v') # dict_set k v rest)"

definition build_display_map :: "screen_config list \<Rightarrow> (int \<times> string) list" where
  "build_display_map current_config =
     fold (\<lambda>screen d. dict_set (sc_display_number screen) (sc_monitor_id screen) d) current_config []"

text \<open>
  What the requirement check decides for one required screen, in the words of the
  code: the first entry of the configuration with the display number exists and has the
  required orientation.
\<close>

definition first_entry_ok :: "screen_config list \<Rightarrow> required_screen \<Rightarrow> bool" where
  "first_entry_ok current_config r =
     (case find (\<lambda>s. sc_display_number s = the (rs_display_number r)) current_config of
        None \<Rightarrow> False
      | Some s \<Rightarrow> sc_orientation s = the (rs_orientation r))"

definition mismatch_reason :: "screen_config list \<Rightarrow> required_screen \<Rightarrow> string" where
  "mismatch_reason current_config r =
     (case find (\<lambda>s. sc_display_number s = the (rs_display_number r)) current_config of
        None \<Rightarrow> ''DISPLAY'' @ show_int (the (rs_display_number r))
                 @ '' not found (required for layout)''
      | Some s \<Rightarrow> ''DISPLAY'' @ show_int (the (rs_display_number r)) @ '' is ''
                 @ sc_orientation s @ '', but layout needs '' @ the (rs_orientation r))"

definition well_formed_screen :: "required_screen \<Rightarrow> bool" where
  "well_formed_screen r = (rs_display_number r \<noteq> None \<and> rs_orientation r \<noteq> None)"

text \<open>Two test configurations.\<close>

definition cfg_entry :: "int \<Rightarrow> string \<Rightarrow> string \<Rightarrow> screen_config" where
  "cfg_entry n orient mid =
     \<lparr> sc_display_number = n, sc_orientation = orient, sc_monitor_id = mid,
       sc_width = (if orient = ''horizontal'' then 1920 else 1080),
       sc_height = (if orient = ''horizontal'' then 1080 else 1920),
       sc_name = ''DISPLAY'' @ show_int n \<rparr>"

definition req_entry :: "int \<Rightarrow> string \<Rightarrow> required_screen" where
  "req_entry n orient = \<lparr> rs_display_number = Some n, rs_orientation = Some orient \<rparr>"

definition count_matches :: "screen_config list \<Rightarrow> screen_req \<Rightarrow> bool" where
  "count_matches current_config req =
     (case total_screens req of None \<Rightarrow> True | Some t \<Rightarrow> int (length current_config) = t)"

definition count_reason :: "screen_config list \<Rightarrow> screen_req \<Rightarrow> string" where
  "count_reason current_config req =
     ''Need exactly '' @ show_int (the (total_screens req)) @ '' screen(s), but ''
       @ show_nat (length current_config) @ '' connected''"

section \<open>Layout files and the active layout (layout\_manager.py)\<close>

record layout_rule =
  rule_id :: "string option"
  match_type :: "string option"
  match_value :: "string option"
  target_display :: "int option"
  fullscreen :: "bool option"
  maximize :: "bool option"

record layout =
  lay_name :: "string option"
  lay_description :: "string option"
  lay_screen_requirements :: "screen_req option"
  lay_rules :: "layout_rule list option"

text \<open>
  The layouts directory: what opening and parsing the file of a given name yields.
  \<open>path_str\<close> renders \<open>layouts_dir / file_name\<close>, and \<open>now_iso\<close> is what
  \<open>datetime.now().isoformat()\<close> returns.
\<close>

datatype layout_file = Json layout | Bad_json string | Unreadable string

record environment =
  layout_files :: "string \<Rightarrow> layout_file option"
  path_str :: "string \<Rightarrow> string"
  now_iso :: string

definition quote :: "string \<Rightarrow> string" where
  "quote s = [CHR 0x27] @ s @ [CHR 0x27]"

fun validate_screens :: "nat \<Rightarrow> required_screen list \<Rightarrow> (bool \<times> string) option" where
  "validate_screens i [] = None"
| "validate_screens i (screen # rest) =
     (case rs_display_number screen of
        None \<Rightarrow> Some (False, ''Screen '' @ show_nat i @ '' missing: display_number'')
      | Some display_number \<Rightarrow>
     (case rs_orientation screen of
        None \<Rightarrow> Some (False, ''Screen '' @ show_nat i @ '' missing: orientation'')
      | Some orientation \<Rightarrow>
          if orientation \<noteq> ''horizontal'' \<and> orientation \<noteq> ''vertical''
          then Some (False, ''Screen '' @ show_nat i @ '' has invalid orientation: '' @ orientation
                       @ '' (must be '' @ quote ''horizontal'' @ '' or '' @ quote ''vertical'' @ '')'')
          else validate_screens (Suc i) rest))"

fun validate_rules :: "nat \<Rightarrow> int list \<Rightarrow> layout_rule list \<Rightarrow> (bool \<times> string) option" where
  "validate_rules i required_displays [] = None"
| "validate_rules i required_displays (rule # rest) =
     (if match_type rule = None then Some (False, ''Rule '' @ show_nat i @ '' missing: match_type'')
      else if match_value rule = None then Some (False, ''Rule '' @ show_nat i @ '' missing: match_value'')
      else (case target_display rule of
              None \<Rightarrow> Some (False, ''Rule '' @ show_nat i @ '' missing: target_display'')
            | Some target \<Rightarrow>
                if \<not> List.member required_displays target
                then Some (False, ''Rule '' @ show_nat i @ '' targets DISPLAY'' @ show_int target
                             @ '' which is not in screen_requirements'')
                else validate_rules (Suc i) required_displays rest))"

text \<open>
  \<open>validate_layout\<close>. The \<open>isinstance\<close> tests of the source hold by typing here.
  The list of required display numbers is read once the screens have been validated, so
  all of them are present.
\<close>

definition validate_layout :: "layout \<Rightarrow> bool \<times> string" where
  "validate_layout layout_data =
     (if lay_name layout_data = None then (False, ''Missing required field: name'')
      else case lay_screen_requirements layout_data of
        None \<Rightarrow> (False, ''Missing required field: screen_requirements'')
      | Some screen_req \<Rightarrow>
     (case lay_rules layout_data of
        None \<Rightarrow> (False, ''Missing required field: rules'')
      | Some rules \<Rightarrow>
          if total_screens screen_req = None
          then (False, ''screen_requirements missing: total_screens'')
          else (case screens screen_req of
             None \<Rightarrow> (False, ''screen_requirements missing: screens'')
           | Some scr \<Rightarrow>
          (case validate_screens 0 scr of
             Some failure \<Rightarrow> failure
           | None \<Rightarrow>
          (case validate_rules 0 (List.map_filter rs_display_number scr) rules of
             Some failure \<Rightarrow> failure
           | None \<Rightarrow> (True, ''Layout is valid''))))))"

definition json_name :: "string \<Rightarrow> string" where
  "json_name layout_name =
     (if py_endswith layout_name ''.json'' then layout_name else layout_name @ ''.json'')"

text \<open>
  \<open>load_layout\<close>. The \<open>LayoutError\<close> raised for an invalid structure is raised
  inside the \<open>try\<close> and is caught by its last handler, which wraps the message again.
\<close>

definition load_layout :: "environment \<Rightarrow> string \<Rightarrow> exn + layout" where
  "load_layout env layout_name =
     (case layout_files env (json_name layout_name) of
        None \<Rightarrow> Inl (LayoutError (''Layout file not found: '' @ path_str env (json_name layout_name)))
      | Some (Bad_json m) \<Rightarrow> Inl (LayoutError (''Invalid JSON in layout file: '' @ m))
      | Some (Unreadable m) \<Rightarrow> Inl (LayoutError (''Error loading layout: '' @ m))
      | Some (Json layout_data) \<Rightarrow>
          (case validate_layout layout_data of
             (is_valid, error_msg) \<Rightarrow>
               if \<not> is_valid
               then Inl (LayoutError (''Error loading layout: '' @ ''Invalid layout file: '' @ error_msg))
               else Inr layout_data))"

record active_state =
  al_name :: string
  al_file_name :: string
  al_data :: layout
  al_display_map :: "(int \<times> string) list"
  al_activated_at :: string

record layout_manager =
  active_layout :: "active_state option"

text \<open>The result dicts of \<open>activate_layout\<close> and \<open>deactivate_layout\<close>.\<close>

record op_result =
  success :: bool
  res_layout :: "string option"
  rules_applied :: "nat option"
  deactivated :: "string option"
  message :: string

definition can_apply_layout :: "monitor_manager \<Rightarrow> layout \<Rightarrow> exn + (bool \<times> string)" where
  "can_apply_layout mm layout_data =
     (case lay_screen_requirements layout_data of
        None \<Rightarrow> Inl (KeyError ''screen_requirements'')
      | Some req \<Rightarrow> matches_requirements (get_screen_configuration mm) req)"

definition activate_layout ::
  "environment \<Rightarrow> monitor_manager \<Rightarrow> layout_manager \<Rightarrow> string \<Rightarrow> (exn + op_result) \<times> layout_manager" where
  "activate_layout env mm lm layout_name =
     (case active_layout lm of
        Some al \<Rightarrow>
          (Inr \<lparr> success = False, res_layout = None, rules_applied = None, deactivated = None,
                 message = ''Layout '' @ quote (al_name al)
                   @ '' is already active. Deactivate it first before activating another.'' \<rparr>, lm)
      | None \<Rightarrow>
     (case load_layout env layout_name of
        Inl (LayoutError m) \<Rightarrow> (Inl (LayoutError (''Cannot load layout: '' @ m)), lm)
      | Inl e \<Rightarrow> (Inl e, lm)
      | Inr layout_data \<Rightarrow>
     (case can_apply_layout mm layout_data of
        Inl e \<Rightarrow> (Inl e, lm)
      | Inr (can_apply, reason) \<Rightarrow>
          if \<not> can_apply
          then (Inl (LayoutError
                  (''Screen configuration doesn'' @ [CHR 0x27] @ ''t match layout requirements: '' @ reason)), lm)
          else
            let screen_config = get_screen_configuration mm;
                display_map = build_display_map screen_config
            in (case lay_name layout_data of
                  None \<Rightarrow> (Inl (KeyError ''name''), lm)
                | Some nm \<Rightarrow>
                    (Inr \<lparr> success = True, res_layout = Some nm,
                           rules_applied = Some (length (case lay_rules layout_data of None \<Rightarrow> [] | Some rs \<Rightarrow> rs)),
                           deactivated = None,
                           message = ''Layout '' @ quote nm @ '' activated successfully'' \<rparr>,
                     lm \<lparr> active_layout := Some
                       \<lparr> al_name = nm,
                         al_file_name = json_name layout_name,
                         al_data = layout_data,
                         al_display_map = display_map,
                         al_activated_at = now_iso env \<rparr> \<rparr>)))))"

definition deactivate_layout :: "layout_manager \<Rightarrow> op_result \<times> layout_manager" where
  "deactivate_layout lm =
     (case active_layout lm of
        None \<Rightarrow>
          (\<lparr> success = False, res_layout = None, rules_applied = None, deactivated = None,
             message = ''No active layout to deactivate'' \<rparr>, lm)
      | Some al \<Rightarrow>
          (\<lparr> success = True, res_layout = None, rules_applied = None, deactivated = Some (al_name al),
             message = ''Layout '' @ quote (al_name al) @ '' deactivated successfully'' \<rparr>,
           lm \<lparr> active_layout := None \<rparr>))"

definition check_active_layout_validity ::
  "monitor_manager \<Rightarrow> layout_manager \<Rightarrow> (exn + bool) \<times> layout_manager" where
  "check_active_layout_validity mm lm =
     (case active_layout lm of
        None \<Rightarrow> (Inr True, lm)
      | Some al \<Rightarrow>
          (case can_apply_layout mm (al_data al) of
             Inl e \<Rightarrow> (Inl e, lm)
           | Inr (can_apply, reason) \<Rightarrow>
               if \<not> can_apply then (Inr False, snd (deactivate_layout lm))
               else (Inr True, lm)))"

text \<open>
  A resolved rule, as \<open>get_active_rules\<close> builds it. \<open>uuids k\<close> is the eight hex
  digits of the \<open>k\<close>-th \<open>uuid4()\<close> drawn during the call; one is drawn for every rule
  that is resolved, since the default of \<open>dict.get\<close> is evaluated eagerly.
\<close>

record resolved_rule =
  rr_rule_id :: string
  rr_match_type :: string
  rr_match_value :: string
  target_monitor_id :: string
  rr_fullscreen :: bool
  rr_maximize :: bool

fun get_active_rules_loop ::
  "(nat \<Rightarrow> string) \<Rightarrow> nat \<Rightarrow> (int \<times> string) list \<Rightarrow> layout_rule list \<Rightarrow> exn + resolved_rule list" where
  "get_active_rules_loop uuids k display_map [] = Inr []"
| "get_active_rules_loop uuids k display_map (layout_rule # rest) =
     (case target_display layout_rule of
        None \<Rightarrow> get_active_rules_loop uuids k display_map rest
      | Some td \<Rightarrow>
          if td = 0 then get_active_rules_loop uuids k display_map rest
          else (case map_of display_map td of
             None \<Rightarrow> get_active_rules_loop uuids k display_map rest
           | Some monitor_id \<Rightarrow>
          (case match_type layout_rule of
             None \<Rightarrow> Inl (KeyError ''match_type'')
           | Some mt \<Rightarrow>
          (case match_value layout_rule of
             None \<Rightarrow> Inl (KeyError ''match_value'')
           | Some mv \<Rightarrow>
          (case get_active_rules_loop uuids (Suc k) display_map rest of
             Inl e \<Rightarrow> Inl e
           | Inr rules \<Rightarrow>
               Inr (\<lparr> rr_rule_id = (case rule_id layout_rule of Some i \<Rightarrow> i | None \<Rightarrow> ''rule_'' @ uuids k),
                       rr_match_type = mt,
                       rr_match_value = mv,
                       target_monitor_id = monitor_id,
                       rr_fullscreen = (case fullscreen layout_rule of Some b \<Rightarrow> b | None \<Rightarrow> False),
                       rr_maximize = (case maximize layout_rule of Some b \<Rightarrow> b | None \<Rightarrow> False) \<rparr>
                    # rules))))))"

definition get_active_rules :: "(nat \<Rightarrow> string) \<Rightarrow> layout_manager \<Rightarrow> exn + resolved_rule list" where
  "get_active_rules uuids lm =
     (case active_layout lm of
        None \<Rightarrow> Inr []
      | Some al \<Rightarrow>
          get_active_rules_loop uuids 0 (al_display_map al)
            (case lay_rules (al_data al) of None \<Rightarrow> [] | Some rs \<Rightarrow> rs))"

text \<open>
  The operations on the layout manager other than activation, and a run of them; the
  validity check is run against whatever monitors are connected at that time.
\<close>

datatype lm_op = Op_deactivate | Op_check_validity monitor_manager

fun run_op :: "lm_op \<Rightarrow> layout_manager \<Rightarrow> layout_manager" where
  "run_op Op_deactivate lm = snd (deactivate_layout lm)"
| "run_op (Op_check_validity mm) lm = snd (check_active_layout_validity mm lm)"

definition run_ops :: "lm_op list \<Rightarrow> layout_manager \<Rightarrow> layout_manager" where
  "run_ops ops lm = fold run_op ops lm"




definition stored_rules :: "active_state \<Rightarrow> layout_rule list" where
  "stored_rules al = (case lay_rules (al_data al) of None \<Rightarrow> [] | Some rs \<Rightarrow> rs)"

section \<open>The rule matching predicate (layout\_manager.py, window\_manager.py)\<close>

text \<open>
  A window dict as \<open>get_all_windows\<close> builds it, with the keys the rule engine reads.
  \<open>get_all_windows\<close> stores the exe file name under both \<open>exe_name\<close> and
  \<open>app_name\<close>; callers of \<open>find_matching_rule_for_window\<close> may pass a dict in which
  any of the keys is \<open>None\<close>.
\<close>

record window_info =
  w_hwnd :: int
  w_title :: "string option"
  w_app_name :: "string option"
  w_exe_name :: "string option"
  w_process_path :: "string option"
  w_is_minimized :: bool

definition normalize_exe_name :: "string \<Rightarrow> string" where
  "normalize_exe_name exe_name =
     (let s = py_lower (py_strip exe_name)
      in if py_endswith s ''.exe'' then s
         else if s \<noteq> [] then s @ ''.exe'' else s)"

text \<open>The loop body of \<open>find_matching_rule_for_window\<close>: does this rule match?\<close>

definition layout_rule_matches :: "window_info \<Rightarrow> layout_rule \<Rightarrow> bool" where
  "layout_rule_matches window_data rule =
     (let match_value = py_strip (or_empty (match_value rule));
          match_value_lower = py_lower match_value
      in if match_type rule = Some ''exe'' then
           (let exe_name = py_strip (or_empty (py_or (w_exe_name window_data) (w_app_name window_data)))
            in normalize_exe_name exe_name = normalize_exe_name match_value_lower)
         else if match_type rule = Some ''window_title'' then
           (let title = py_lower (or_empty (w_title window_data))
            in match_value_lower \<noteq> [] \<and> py_in match_value_lower title)
         else if match_type rule = Some ''process_path'' then
           (let process_path = py_lower (or_empty (w_process_path window_data))
            in match_value_lower \<noteq> [] \<and> match_value_lower = process_path)
         else False)"

definition find_matching_rule_for_window :: "window_info \<Rightarrow> layout_rule list \<Rightarrow> layout_rule option" where
  "find_matching_rule_for_window window_data rules = find (layout_rule_matches window_data) rules"

text \<open>The local helper \<open>_norm_exe\<close> of \<open>apply_rules\<close> and the test of its matching loop.\<close>

definition norm_exe :: "string \<Rightarrow> string" where
  "norm_exe s0 =
     (let s = py_lower (py_strip s0)
      in if py_endswith s ''.exe'' then s
         else if s \<noteq> [] then s @ ''.exe'' else s)"

definition window_matches_rule :: "resolved_rule \<Rightarrow> window_info \<Rightarrow> bool" where
  "window_matches_rule rule window =
     (let mv = py_strip (rr_match_value rule);
          mv_lower = py_lower mv
      in if rr_match_type rule = ''exe'' then
           (let exe_name = py_strip (or_empty (py_or (w_exe_name window) (w_app_name window)))
            in norm_exe exe_name = norm_exe mv_lower)
         else if rr_match_type rule = ''window_title'' then
           (let title = py_lower (or_empty (w_title window))
            in mv_lower \<noteq> [] \<and> py_in mv_lower title)
         else if rr_match_type rule = ''process_path'' then
           (let process_path = py_lower (or_empty (w_process_path window))
            in mv_lower \<noteq> [] \<and> mv_lower = process_path)
         else False)"

section \<open>The windowing system (window\_manager.py)\<close>

text \<open>
  The Win32 surface the window manager drives. The state of the windowing system is a
  value of an arbitrary type \<open>'w\<close>. Reading it never changes it: the style word
  (\<open>GetWindowLong(hwnd, GWL_STYLE)\<close>), the show command of the placement
  (\<open>GetWindowPlacement(hwnd)[1]\<close>), the window rectangle and the foreground window,
  each of which may raise. \<open>ShowWindow\<close>, \<open>MoveWindow\<close> and
  \<open>SetForegroundWindow\<close> change it and may raise; injected key events and
  \<open>time.sleep\<close> (during which applications react) change it and do not raise.
  \<open>GetWindowText\<close> is only read for log messages and is left out, as is logging.

  Two methods whose bodies reach outside the engine are taken as given by the platform:
  \<open>detect_monitors\<close> (screeninfo and the reconciliation with the config file), which
  catches every exception itself, and \<open>get_all_windows\<close> (the enumeration through
  psutil and Win32).
\<close>

type_synonym hwnd = int

datatype os_call = ShowWindow hwnd int | MoveWindow hwnd int int int int | SetForegroundWindow hwnd

datatype os_event = KeyDown int | KeyUp int | Sleep nat

datatype os_item = Call os_call | Event os_event

record 'w win32 =
  GetWindowLong :: "'w \<Rightarrow> hwnd \<Rightarrow> exn + int"
  GetWindowPlacement :: "'w \<Rightarrow> hwnd \<Rightarrow> exn + int"
  GetWindowRect :: "'w \<Rightarrow> hwnd \<Rightarrow> exn + (int \<times> int \<times> int \<times> int)"
  GetForegroundWindow :: "'w \<Rightarrow> exn + hwnd"
  do_call :: "'w \<Rightarrow> os_call \<Rightarrow> exn option \<times> 'w"
  do_event :: "'w \<Rightarrow> os_event \<Rightarrow> 'w"
  detect_monitors :: "'w \<Rightarrow> monitor_manager \<Rightarrow> monitor_manager"
  get_all_windows :: "'w \<Rightarrow> monitor_manager \<Rightarrow> exn + window_info list"

definition SW_MAXIMIZE :: int where "SW_MAXIMIZE = 3"
definition SW_SHOWMAXIMIZED :: int where "SW_SHOWMAXIMIZED = 3"
definition SW_RESTORE :: int where "SW_RESTORE = 9"
definition VK_F11 :: int where "VK_F11 = 0x7A"

text \<open>
  A run of the engine carries the state of the windowing system and the list of the
  operations issued so far. Sleeps are in milliseconds.
\<close>

type_synonym 'w run = "'w \<times> os_item list"

definition do_os_call :: "'w win32 \<Rightarrow> os_call \<Rightarrow> 'w run \<Rightarrow> exn option \<times> 'w run" where
  "do_os_call api c s =
     (case do_call api (fst s) c of (err, w') \<Rightarrow> (err, (w', snd s @ [Call c])))"

definition do_os_event :: "'w win32 \<Rightarrow> os_event \<Rightarrow> 'w run \<Rightarrow> 'w run" where
  "do_os_event api ev s = (do_event api (fst s) ev, snd s @ [Event ev])"

definition is_window_maximized :: "'w win32 \<Rightarrow> 'w \<Rightarrow> hwnd \<Rightarrow> bool" where
  "is_window_maximized api w hwnd =
     (case GetWindowPlacement api w hwnd of
        Inl e \<Rightarrow> False
      | Inr show_cmd \<Rightarrow> show_cmd = SW_SHOWMAXIMIZED)"

definition is_window_fullscreen :: "'w win32 \<Rightarrow> 'w \<Rightarrow> hwnd \<Rightarrow> bool" where
  "is_window_fullscreen api w hwnd =
     (case GetWindowLong api w hwnd of
        Inl e \<Rightarrow> False
      | Inr style \<Rightarrow> fullscreen_of_style style)"

definition get_window_monitor_id :: "'w win32 \<Rightarrow> monitor_manager \<Rightarrow> 'w \<Rightarrow> hwnd \<Rightarrow> string option" where
  "get_window_monitor_id api mm w hwnd =
     (case GetWindowRect api w hwnd of
        Inl e \<Rightarrow> None
      | Inr (rect_left, rect_top, rect_right, rect_bottom) \<Rightarrow>
          get_monitor_by_position mm
            ((rect_left + rect_right) div 2) ((rect_top + rect_bottom) div 2))"

definition is_window_on_monitor :: "'w win32 \<Rightarrow> monitor_manager \<Rightarrow> 'w \<Rightarrow> hwnd \<Rightarrow> string \<Rightarrow> bool" where
  "is_window_on_monitor api mm w hwnd monitor_id =
     (get_window_monitor_id api mm w hwnd = Some monitor_id)"

definition is_window_in_correct_state ::
  "'w win32 \<Rightarrow> monitor_manager \<Rightarrow> 'w \<Rightarrow> hwnd \<Rightarrow> string \<Rightarrow> bool \<Rightarrow> bool \<Rightarrow> bool" where
  "is_window_in_correct_state api mm w hwnd monitor_id maximize' fullscreen' =
     (if \<not> is_window_on_monitor api mm w hwnd monitor_id then False
      else if fullscreen' then is_window_fullscreen api w hwnd
      else if maximize' then
        (let is_max = is_window_maximized api w hwnd;
             is_full = is_window_fullscreen api w hwnd
         in is_max \<and> \<not> is_full)
      else
        (let is_max = is_window_maximized api w hwnd;
             is_full = is_window_fullscreen api w hwnd
         in \<not> is_max \<and> \<not> is_full))"

definition move_window :: "'w win32 \<Rightarrow> hwnd \<Rightarrow> monitor_obj \<Rightarrow> 'w run \<Rightarrow> exn option \<times> 'w run" where
  "move_window api hwnd monitor s =
     (case do_os_call api (ShowWindow hwnd SW_RESTORE) s of
        (Some e, s1) \<Rightarrow> (Some e, s1)
      | (None, s1) \<Rightarrow>
          do_os_call api
            (MoveWindow hwnd (mon_x monitor) (mon_y monitor) (mon_width monitor) (mon_height monitor))
            s1)"

text \<open>
  The three attempts of \<open>fullscreen_window\<close> to take the foreground: an attempt ends the
  loop when the window is the foreground window afterwards; a failed attempt, raised or
  not, sleeps before the next one unless it was the last.
\<close>

fun focus_loop :: "'w win32 \<Rightarrow> hwnd \<Rightarrow> nat list \<Rightarrow> 'w run \<Rightarrow> 'w run" where
  "focus_loop api hwnd [] s = s"
| "focus_loop api hwnd (attempt # rest) s =
     (case do_os_call api (SetForegroundWindow hwnd) s of
        (Some e, s1) \<Rightarrow>
          focus_loop api hwnd rest (if attempt < 2 then do_os_event api (Sleep 200) s1 else s1)
      | (None, s1) \<Rightarrow>
          (let s2 = do_os_event api (Sleep 100) s1
           in case GetForegroundWindow api (fst s2) of
                Inl e \<Rightarrow>
                  focus_loop api hwnd rest (if attempt < 2 then do_os_event api (Sleep 200) s2 else s2)
              | Inr current_fg \<Rightarrow>
                  if current_fg = hwnd then s2
                  else focus_loop api hwnd rest
                         (if attempt < 2 then do_os_event api (Sleep 200) s2 else s2)))"

text \<open>
  \<open>fullscreen_window\<close>: the F11 toggle. The style reads before and after the key press
  only feed log messages and swallow their exceptions, so they are left out.
\<close>

definition fullscreen_window :: "'w win32 \<Rightarrow> hwnd \<Rightarrow> nat \<Rightarrow> 'w run \<Rightarrow> 'w run" where
  "fullscreen_window api hwnd wait_time s =
     (let original_fg = (case GetForegroundWindow api (fst s) of Inl e \<Rightarrow> None | Inr h \<Rightarrow> Some h);
          s1 = focus_loop api hwnd [0, 1, 2] s;
          s2 = do_os_event api (KeyDown VK_F11) s1;
          s3 = do_os_event api (Sleep 50) s2;
          s4 = do_os_event api (KeyUp VK_F11) s3;
          s5 = do_os_event api (Sleep wait_time) s4
      in case original_fg of
           None \<Rightarrow> s5
         | Some fg \<Rightarrow>
             if fg \<noteq> 0 \<and> fg \<noteq> hwnd then snd (do_os_call api (SetForegroundWindow fg) s5)
             else s5)"

definition maximize_window :: "'w win32 \<Rightarrow> hwnd \<Rightarrow> 'w run \<Rightarrow> exn option \<times> 'w run" where
  "maximize_window api hwnd s =
     (let s1 = (if is_window_fullscreen api (fst s) hwnd then fullscreen_window api hwnd 600 s else s)
      in do_os_call api (ShowWindow hwnd SW_MAXIMIZE) s1)"

record awr_result =
  changed :: bool
  operations :: "string list"

text \<open>Step 2 of \<open>apply_window_rule\<close>: from the current chrome state to the desired one.\<close>

definition chrome_step ::
  "'w win32 \<Rightarrow> hwnd \<Rightarrow> bool \<Rightarrow> bool \<Rightarrow> bool \<Rightarrow> string list \<Rightarrow> 'w run \<Rightarrow> (exn + string list) \<times> 'w run" where
  "chrome_step api hwnd maximize' fullscreen' needs_move ops s =
     (let current_fullscreen = is_window_fullscreen api (fst s) hwnd;
          current_maximized = is_window_maximized api (fst s) hwnd
      in if fullscreen' then
           (if \<not> current_fullscreen then
              (case (if \<not> current_maximized
                     then (case maximize_window api hwnd s of
                             (Some e, s1) \<Rightarrow> (Inl e, s1)
                           | (None, s1) \<Rightarrow> (Inr (ops @ [''maximize'']), do_os_event api (Sleep 200) s1))
                     else (Inr ops, s)) of
                 (Inl e, s2) \<Rightarrow> (Inl e, s2)
               | (Inr ops2, s2) \<Rightarrow>
                   (let s3 = fullscreen_window api hwnd 1500 s2;
                        s4 = do_os_event api (Sleep 500) s3
                    in case GetWindowLong api (fst s4) hwnd of
                         Inl e \<Rightarrow> (Inl e, s4)
                       | Inr style_after \<Rightarrow> (Inr (ops2 @ [''fullscreen'']), s4)))
            else (Inr ops, s))
         else if maximize' then
           (let s1 = (if current_fullscreen then fullscreen_window api hwnd 600 s else s);
                ops1 = (if current_fullscreen then ops @ [''exit_fullscreen''] else ops)
            in if \<not> current_maximized \<or> current_fullscreen
               then (case maximize_window api hwnd s1 of
                       (Some e, s2) \<Rightarrow> (Inl e, s2)
                     | (None, s2) \<Rightarrow> (Inr (ops1 @ [''maximize'']), s2))
               else (Inr ops1, s1))
         else
           (let s1 = (if current_fullscreen then fullscreen_window api hwnd 600 s else s);
                ops1 = (if current_fullscreen then ops @ [''exit_fullscreen''] else ops)
            in if current_maximized \<and> \<not> needs_move
               then (case do_os_call api (ShowWindow hwnd SW_RESTORE) s1 of
                       (Some e, s2) \<Rightarrow> (Inl e, s2)
                     | (None, s2) \<Rightarrow> (Inr (ops1 @ [''restore'']), s2))
               else (Inr ops1, s1)))"

definition apply_window_rule ::
  "'w win32 \<Rightarrow> monitor_manager \<Rightarrow> 'w run \<Rightarrow> hwnd \<Rightarrow> string \<Rightarrow> bool \<Rightarrow> bool \<Rightarrow> (exn + awr_result) \<times> 'w run" where
  "apply_window_rule api mm s hwnd monitor_id maximize' fullscreen' =
     (case get_connected_monitor mm monitor_id of
        None \<Rightarrow> (Inr \<lparr> changed = False, operations = [] \<rparr>, s)
      | Some monitor \<Rightarrow>
          if is_window_in_correct_state api mm (fst s) hwnd monitor_id maximize' fullscreen'
          then (Inr \<lparr> changed = False, operations = [] \<rparr>, s)
          else
            (let needs_move = \<not> is_window_on_monitor api mm (fst s) hwnd monitor_id
             in case (if needs_move
                      then (case move_window api hwnd monitor s of
                              (Some e, s1) \<Rightarrow> (Inl e, s1)
                            | (None, s1) \<Rightarrow> (Inr [''move''], do_os_event api (Sleep 300) s1))
                      else (Inr [], s)) of
                  (Inl e, s1) \<Rightarrow> (Inl e, s1)
                | (Inr ops, s1) \<Rightarrow>
                    (case chrome_step api hwnd maximize' fullscreen' needs_move ops s1 of
                       (Inl e, s2) \<Rightarrow> (Inl e, s2)
                     | (Inr ops2, s2) \<Rightarrow> (Inr \<lparr> changed = True, operations = ops2 \<rparr>, s2))))"

section \<open>The rule application pass (window\_manager.py)\<close>

record detail =
  d_rule_id :: string
  d_result :: string
  d_message :: string

record results =
  applied :: nat
  skipped_no_monitor :: nat
  skipped_no_window :: nat
  failed :: nat
  details :: "detail list"

definition zero_results :: results where
  "zero_results =
     \<lparr> applied = 0, skipped_no_monitor = 0, skipped_no_window = 0, failed = 0, details = [] \<rparr>"

text \<open>
  One entry per window on which the \<open>try\<close> block of the pass either reached
  \<open>apply_window_rule\<close> or raised: the rule, the window handle, and what came of it.
  The list is an observation of the pass, kept beside its result.
\<close>

type_synonym attempt = "string \<times> hwnd \<times> (exn + awr_result)"

text \<open>
  The body of the inner loop, for one matching window. \<open>awr\<close> is
  \<open>apply_window_rule\<close> on the state it is run on.
\<close>

definition apply_to_window ::
  "('s \<Rightarrow> hwnd \<Rightarrow> string \<Rightarrow> bool \<Rightarrow> bool \<Rightarrow> (exn + awr_result) \<times> 's) \<Rightarrow> resolved_rule \<Rightarrow> window_info
     \<Rightarrow> results \<times> attempt list \<times> 's \<Rightarrow> results \<times> attempt list \<times> 's" where
  "apply_to_window awr rule window acc =
     (case acc of (res, attempts, s) \<Rightarrow>
        if w_is_minimized window then (res, attempts, s)
        else (case w_title window of
           None \<Rightarrow>
             (let e = AttributeError
                        (quote ''NoneType'' @ '' object has no attribute '' @ quote ''strip'')
              in (res \<lparr> failed := failed res + 1,
                        details := details res @
                          [\<lparr> d_rule_id = rr_rule_id rule, d_result = ''error'', d_message = exn_str e \<rparr>] \<rparr>,
                  attempts @ [(rr_rule_id rule, w_hwnd window, Inl e)], s))
         | Some t \<Rightarrow>
             (let window_title = py_strip t
              in if window_title = [] then (res, attempts, s)
                 else if window_title = ''Program Manager'' then (res, attempts, s)
                 else (case awr s (w_hwnd window) (target_monitor_id rule)
                              (rr_maximize rule) (rr_fullscreen rule) of
                         (Inr result, s') \<Rightarrow>
                           ((if changed result then res \<lparr> applied := applied res + 1 \<rparr> else res),
                            attempts @ [(rr_rule_id rule, w_hwnd window, Inr result)], s')
                       | (Inl e, s') \<Rightarrow>
                           (res \<lparr> failed := failed res + 1,
                                  details := details res @
                                    [\<lparr> d_rule_id = rr_rule_id rule, d_result = ''error'',
                                       d_message = exn_str e \<rparr>] \<rparr>,
                            attempts @ [(rr_rule_id rule, w_hwnd window, Inl e)], s')))))"

text \<open>The body of the outer loop, for one rule.\<close>

definition apply_rule ::
  "('s \<Rightarrow> hwnd \<Rightarrow> string \<Rightarrow> bool \<Rightarrow> bool \<Rightarrow> (exn + awr_result) \<times> 's) \<Rightarrow> monitor_manager
     \<Rightarrow> window_info list \<Rightarrow> resolved_rule
     \<Rightarrow> results \<times> attempt list \<times> 's \<Rightarrow> results \<times> attempt list \<times> 's" where
  "apply_rule awr mm windows rule acc =
     (case acc of (res, attempts, s) \<Rightarrow>
        if \<not> is_monitor_connected mm (target_monitor_id rule)
        then (res \<lparr> skipped_no_monitor := skipped_no_monitor res + 1,
                     details := details res @
                       [\<lparr> d_rule_id = rr_rule_id rule, d_result = ''skipped_no_monitor'',
                          d_message = ''Target monitor '' @ target_monitor_id rule
                                        @ '' is not connected'' \<rparr>] \<rparr>,
              attempts, s)
        else
          (let matching_windows = filter (window_matches_rule rule) windows
           in if matching_windows = []
              then (res \<lparr> skipped_no_window := skipped_no_window res + 1,
                           details := details res @
                             [\<lparr> d_rule_id = rr_rule_id rule, d_result = ''skipped_no_window'',
                                d_message = ''No windows match '' @ rr_match_type rule @ ''=''
                                              @ rr_match_value rule \<rparr>] \<rparr>,
                    attempts, s)
              else fold (apply_to_window awr rule) matching_windows (res, attempts, s)))"

definition apply_rules_loop ::
  "('s \<Rightarrow> hwnd \<Rightarrow> string \<Rightarrow> bool \<Rightarrow> bool \<Rightarrow> (exn + awr_result) \<times> 's) \<Rightarrow> monitor_manager
     \<Rightarrow> window_info list \<Rightarrow> resolved_rule list
     \<Rightarrow> results \<times> attempt list \<times> 's \<Rightarrow> results \<times> attempt list \<times> 's" where
  "apply_rules_loop awr mm windows rules acc = fold (apply_rule awr mm windows) rules acc"

text \<open>
  \<open>apply_rules\<close>. It returns the summary, the attempts of the pass, the monitor
  manager after detection and the run. An exception of \<open>get_active_rules\<close> or of
  \<open>get_all_windows\<close> leaves the method; nothing raised in the loops does.
\<close>

definition apply_rules ::
  "'w win32 \<Rightarrow> (nat \<Rightarrow> string) \<Rightarrow> monitor_manager \<Rightarrow> layout_manager option \<Rightarrow> 'w run
     \<Rightarrow> (exn + results) \<times> attempt list \<times> monitor_manager \<times> 'w run" where
  "apply_rules api uuids mm0 layout_manager s =
     (let mm = detect_monitors api (fst s) mm0
      in case layout_manager of
           None \<Rightarrow> (Inr zero_results, [], mm, s)
         | Some lm \<Rightarrow>
             (case get_active_rules uuids lm of
                Inl e \<Rightarrow> (Inl e, [], mm, s)
              | Inr rules \<Rightarrow>
                  if rules = [] then (Inr zero_results, [], mm, s)
                  else (case get_all_windows api (fst s) mm of
                          Inl e \<Rightarrow> (Inl e, [], mm, s)
                        | Inr windows \<Rightarrow>
                            (case apply_rules_loop (apply_window_rule api mm) mm windows rules
                                    (zero_results, [], s) of
                               (res, attempts, s') \<Rightarrow> (Inr res, attempts, mm, s')))))"

text \<open>Which windows the inner loop hands on, and what a pass is expected to attempt.\<close>

definition attemptable :: "window_info \<Rightarrow> bool" where
  "attemptable window =
     (\<not> w_is_minimized window
      \<and> (case w_title window of
           None \<Rightarrow> True
         | Some t \<Rightarrow> py_strip t \<noteq> [] \<and> py_strip t \<noteq> ''Program Manager''))"

definition rule_targets :: "monitor_manager \<Rightarrow> window_info list \<Rightarrow> resolved_rule \<Rightarrow> (string \<times> hwnd) list" where
  "rule_targets mm windows rule =
     (if is_monitor_connected mm (target_monitor_id rule)
      then map (\<lambda>window. (rr_rule_id rule, w_hwnd window))
             (filter attemptable (filter (window_matches_rule rule) windows))
      else [])"



definition attempt_target :: "attempt \<Rightarrow> string \<times> hwnd" where
  "attempt_target a = (fst a, fst (snd a))"





section \<open>Test fixtures\<close>

definition test_rule :: "string \<Rightarrow> string \<Rightarrow> int \<Rightarrow> layout_rule" where
  "test_rule mt mv d =
     \<lparr> rule_id = Some (''rule_'' @ mv), match_type = Some mt, match_value = Some mv,
       target_display = Some d, fullscreen = Some False, maximize = Some True \<rparr>"

definition test_layout :: "string \<Rightarrow> required_screen list \<Rightarrow> layout_rule list \<Rightarrow> layout" where
  "test_layout nm scr rs =
     \<lparr> lay_name = Some nm, lay_description = None,
       lay_screen_requirements = Some \<lparr> total_screens = Some (int (length scr)), screens = Some scr \<rparr>,
       lay_rules = Some rs \<rparr>"

definition portrait :: monitor_obj where
  "portrait = \<lparr> mon_x = 0, mon_y = 0, mon_width = 1080, mon_height = 1920 \<rparr>"

definition landscape :: monitor_obj where
  "landscape = \<lparr> mon_x = 1080, mon_y = 0, mon_width = 1920, mon_height = 1080 \<rparr>"

definition known_two :: "known_monitor list" where
  "known_two =
     [\<lparr> km_id = ''monitor_a'', km_name = ''DISPLAY1 (1080x1920)'', km_width = 1080, km_height = 1920 \<rparr>,
      \<lparr> km_id = ''monitor_b'', km_name = ''DISPLAY2 (1920x1080)'', km_width = 1920, km_height = 1080 \<rparr>]"

definition two_monitors :: monitor_manager where
  "two_monitors =
     \<lparr> connected_monitors = [(''monitor_a'', portrait), (''monitor_b'', landscape)],
       known_monitors = known_two \<rparr>"

definition one_monitor :: monitor_manager where
  "one_monitor = \<lparr> connected_monitors = [(''monitor_a'', portrait)], known_monitors = known_two \<rparr>"


definition coding_layout :: layout where
  "coding_layout =
     test_layout ''Coding'' [req_entry 1 ''vertical'', req_entry 2 ''horizontal'']
       [test_rule ''exe'' ''chrome.exe'' 2]"

definition zero_layout :: layout where
  "zero_layout = test_layout ''Zero'' [req_entry 0 ''horizontal''] [test_rule ''exe'' ''chrome.exe'' 0]"

definition test_files :: "string \<Rightarrow> layout_file option" where
  "test_files f =
     (if f = ''coding.json'' then Some (Json coding_layout)
      else if f = ''zero.json'' then Some (Json zero_layout)
      else if f = ''broken.json'' then Some (Json (coding_layout \<lparr> lay_name := None \<rparr>))
      else if f = ''wide.json'' then
        Some (Json (test_layout ''Wide'' [req_entry 1 ''horizontal'', req_entry 2 ''horizontal''] []))
      else None)"

definition layouts_path :: "string \<Rightarrow> string" where
  "layouts_path f = ''layouts/'' @ f"

definition test_env :: environment where
  "test_env = \<lparr> layout_files = test_files, path_str = layouts_path, now_iso = ''2025-01-01T00:00:00'' \<rparr>"

definition inactive :: layout_manager where
  "inactive = \<lparr> active_layout = None \<rparr>"

definition coding_state :: active_state where
  "coding_state =
     \<lparr> al_name = ''Coding'', al_file_name = ''coding.json'', al_data = coding_layout,
       al_display_map = [(1, ''monitor_a''), (2, ''monitor_b'')],
       al_activated_at = ''2025-01-01T00:00:00'' \<rparr>"


definition fixed_uuids :: "nat \<Rightarrow> string" where
  "fixed_uuids k = ''00000000''"

definition test_window :: "int \<Rightarrow> string \<Rightarrow> string option \<Rightarrow> bool \<Rightarrow> window_info" where
  "test_window h t exe minimized =
     \<lparr> w_hwnd = h, w_title = Some t, w_app_name = exe, w_exe_name = exe,
       w_process_path = map_option (append ''C:/apps/'') exe, w_is_minimized = minimized \<rparr>"

definition test_resolved :: "string \<Rightarrow> string \<Rightarrow> string \<Rightarrow> bool \<Rightarrow> bool \<Rightarrow> resolved_rule" where
  "test_resolved mt mv mon mx fs =
     \<lparr> rr_rule_id = ''rule_'' @ mv, rr_match_type = mt, rr_match_value = mv,
       target_monitor_id = mon, rr_fullscreen = fs, rr_maximize = mx \<rparr>"

text \<open>
  A small windowing system to run the engine on: each window has a style word, a show
  command, a rectangle, a title, an exe name and a minimized flag; F11 toggles the
  caption and thick-frame bits of the foreground window; a call on an unknown handle
  raises.
\<close>

record sim_window =
  sw_style :: int
  sw_show_cmd :: int
  sw_rect :: "int \<times> int \<times> int \<times> int"
  sw_title :: string
  sw_exe :: "string option"
  sw_minimized :: bool

type_synonym sim_world = "(hwnd \<times> sim_window) list \<times> hwnd"

definition bad_handle :: exn where
  "bad_handle = OSError ''Invalid window handle.''"

definition sim_read :: "(sim_window \<Rightarrow> 'a) \<Rightarrow> sim_world \<Rightarrow> hwnd \<Rightarrow> exn + 'a" where
  "sim_read f w h = (case map_of (fst w) h of None \<Rightarrow> Inl bad_handle | Some v \<Rightarrow> Inr (f v))"

definition sim_update :: "hwnd \<Rightarrow> (sim_window \<Rightarrow> sim_window) \<Rightarrow> sim_world \<Rightarrow> exn option \<times> sim_world" where
  "sim_update h f w =
     (case map_of (fst w) h of
        None \<Rightarrow> (Some bad_handle, w)
      | Some v \<Rightarrow> (None, (dict_set h (f v) (fst w), snd w)))"

definition set_show_cmd :: "int \<Rightarrow> sim_window \<Rightarrow> sim_window" where
  "set_show_cmd cmd v = v \<lparr> sw_show_cmd := (if cmd = SW_RESTORE then 1 else cmd) \<rparr>"

definition set_rect :: "int \<Rightarrow> int \<Rightarrow> int \<Rightarrow> int \<Rightarrow> sim_window \<Rightarrow> sim_window" where
  "set_rect x y wd ht v = v \<lparr> sw_rect := (x, y, x + wd, y + ht) \<rparr>"

definition toggle_chrome :: "sim_window \<Rightarrow> sim_window" where
  "toggle_chrome v = v \<lparr> sw_style := sw_style v XOR (WS_CAPTION OR WS_THICKFRAME) \<rparr>"

fun sim_call :: "sim_world \<Rightarrow> os_call \<Rightarrow> exn option \<times> sim_world" where
  "sim_call w (ShowWindow h cmd) = sim_update h (set_show_cmd cmd) w"
| "sim_call w (MoveWindow h x y wd ht) = sim_update h (set_rect x y wd ht) w"
| "sim_call w (SetForegroundWindow h) =
     (case map_of (fst w) h of None \<Rightarrow> (Some bad_handle, w) | Some v \<Rightarrow> (None, (fst w, h)))"

fun sim_event :: "sim_world \<Rightarrow> os_event \<Rightarrow> sim_world" where
  "sim_event w (KeyDown vk) = (if vk = VK_F11 then snd (sim_update (snd w) toggle_chrome w) else w)"
| "sim_event w (KeyUp vk) = w"
| "sim_event w (Sleep ms) = w"

definition sim_window_info :: "hwnd \<times> sim_window \<Rightarrow> window_info" where
  "sim_window_info p = test_window (fst p) (sw_title (snd p)) (sw_exe (snd p)) (sw_minimized (snd p))"

definition sim_windows :: "sim_world \<Rightarrow> monitor_manager \<Rightarrow> exn + window_info list" where
  "sim_windows w mm = Inr (map sim_window_info (fst w))"

definition sim_detect :: "sim_world \<Rightarrow> monitor_manager \<Rightarrow> monitor_manager" where
  "sim_detect w mm = mm"

definition sim_api :: "sim_world win32" where
  "sim_api =
     \<lparr> GetWindowLong = sim_read sw_style,
       GetWindowPlacement = sim_read sw_show_cmd,
       GetWindowRect = sim_read sw_rect,
       GetForegroundWindow = Inr \<circ> snd,
       do_call = sim_call,
       do_event = sim_event,
       detect_monitors = sim_detect,
       get_all_windows = sim_windows \<rparr>"



definition chrome_window :: sim_window where
  "chrome_window =
     \<lparr> sw_style = 0x17CF0000, sw_show_cmd = 1, sw_rect = (0, 0, 800, 600),
       sw_title = ''Chrome'', sw_exe = Some ''chrome.exe'', sw_minimized = False \<rparr>"

definition notes_window :: sim_window where
  "notes_window =
     \<lparr> sw_style = 0x17CF0000, sw_show_cmd = 3, sw_rect = (1080, 0, 3000, 1080),
       sw_title = ''Notes'', sw_exe = Some ''notepad.exe'', sw_minimized = False \<rparr>"

definition desk :: "sim_world run" where
  "desk = (([(8, chrome_window), (9, notes_window)], 9), [])"

text \<open>
  An active layout with two rules that both match the Chrome window: by exe name to
  display 2, by title to display 1.
\<close>

definition dual_state :: active_state where
  "dual_state =
     coding_state \<lparr> al_data :=
       test_layout ''Coding'' [req_entry 1 ''vertical'', req_entry 2 ''horizontal'']
         [test_rule ''exe'' ''chrome.exe'' 2, test_rule ''window_title'' ''chrome'' 1] \<rparr>"

section \<open>Fingerprint matching: results\<close>

text \<open>
  C8. \<open>fingerprints_match\<close> compares the primary components first and reports
  \<open>connector_and_resolution_match\<close> when they are equal; otherwise it fails with
  \<open>primary_mismatch_strict\<close> in strict mode; otherwise it compares the secondary
  components and reports \<open>resolution_match\<close> or \<open>no_match\<close>. A fingerprint always
  matches itself through the primary branch, in either mode.
\<close>

theorem fingerprints_match_order:
  "fingerprints_match fp1 fp2 strict =
     (if primary fp1 = primary fp2 then (True, ''connector_and_resolution_match'')
      else if strict then (False, ''primary_mismatch_strict'')
      else if secondary fp1 = secondary fp2 then (True, ''resolution_match'')
      else (False, ''no_match''))
   \<and> fingerprints_match fp fp strict = (True, ''connector_and_resolution_match'')"
  by (simp add: fingerprints_match_def)

section \<open>Fullscreen detection: results\<close>

lemma and_mask_split:
  fixes m a b :: int
  assumes "m AND (a OR b) = 0"
  shows "m AND a = 0" and "m AND b = 0"
proof -
  have "m AND a = (m AND (a OR b)) AND a"
    by (rule bit_eqI) (auto simp: bit_and_iff bit_or_iff)
  then show "m AND a = 0" using assms by simp
  have "m AND b = (m AND (a OR b)) AND b"
    by (rule bit_eqI) (auto simp: bit_and_iff bit_or_iff)
  then show "m AND b = 0" using assms by simp
qed

lemma fullscreen_of_style_bits:
  "fullscreen_of_style s = (s AND WS_CAPTION = 0 \<and> s AND WS_THICKFRAME = 0)"
  by (simp add: fullscreen_of_style_def Let_def WS_CAPTION_def WS_THICKFRAME_def and.assoc)

text \<open>
  C9. \<open>is_window_fullscreen\<close> returns \<open>True\<close> exactly when the style word can be
  read and its caption bits and thick-frame bit are all clear; flipping any bits outside
  those two masks (\<open>WS_POPUP\<close>, the minimize box, the maximize box, ...) never changes
  the verdict.
\<close>

theorem fullscreen_iff_caption_and_thickframe_clear:
  "is_window_fullscreen api w hwnd =
     (case GetWindowLong api w hwnd of
        Inl e \<Rightarrow> False
      | Inr style \<Rightarrow> style AND WS_CAPTION = 0 \<and> style AND WS_THICKFRAME = 0)
   \<and> fullscreen_of_style s = (s AND WS_CAPTION = 0 \<and> s AND WS_THICKFRAME = 0)
   \<and> (m AND (WS_CAPTION OR WS_THICKFRAME) = 0 \<longrightarrow>
        fullscreen_of_style (s XOR m) = fullscreen_of_style s)"
proof (intro conjI impI)
  show "is_window_fullscreen api w hwnd =
     (case GetWindowLong api w hwnd of
        Inl e \<Rightarrow> False
      | Inr style \<Rightarrow> style AND WS_CAPTION = 0 \<and> style AND WS_THICKFRAME = 0)"
    by (simp add: is_window_fullscreen_def fullscreen_of_style_bits split: sum.splits)
next
  show "fullscreen_of_style s = (s AND WS_CAPTION = 0 \<and> s AND WS_THICKFRAME = 0)"
    by (rule fullscreen_of_style_bits)
next
  assume m: "m AND (WS_CAPTION OR WS_THICKFRAME) = 0"
  from and_mask_split [OF m]
  have "m AND WS_CAPTION = 0" and "m AND WS_THICKFRAME = 0" by simp_all
  then show "fullscreen_of_style (s XOR m) = fullscreen_of_style s"
    by (simp add: fullscreen_of_style_bits bit.conj_xor_distrib2)
qed

theorem fullscreen_iff_caption_and_thickframe_clear_witness:
  "(WS_POPUP OR WS_MINIMIZEBOX OR WS_MAXIMIZEBOX) AND (WS_CAPTION OR WS_THICKFRAME) = 0
   \<and> fullscreen_of_style 0x170B0000
   \<and> fullscreen_of_style (0x170B0000 XOR (WS_POPUP OR WS_MINIMIZEBOX OR WS_MAXIMIZEBOX))
   \<and> \<not> fullscreen_of_style 0x17CF0000"
proof -
  have h: "(WS_POPUP OR WS_MINIMIZEBOX OR WS_MAXIMIZEBOX) AND (WS_CAPTION OR WS_THICKFRAME) = 0"
    by (simp add: WS_POPUP_def WS_MINIMIZEBOX_def WS_MAXIMIZEBOX_def WS_CAPTION_def
        WS_THICKFRAME_def)
  have a: "fullscreen_of_style 0x170B0000"
    using fullscreen_iff_caption_and_thickframe_clear [where s = "0x170B0000" and m = 0, THEN conjunct2]
    by (simp add: WS_CAPTION_def WS_THICKFRAME_def)
  have b: "\<not> fullscreen_of_style 0x17CF0000"
    using fullscreen_iff_caption_and_thickframe_clear [where s = "0x17CF0000" and m = 0, THEN conjunct2]
    by (simp add: WS_CAPTION_def WS_THICKFRAME_def)
  from fullscreen_iff_caption_and_thickframe_clear
    [where s = "0x170B0000" and m = "WS_POPUP OR WS_MINIMIZEBOX OR WS_MAXIMIZEBOX",
     THEN conjunct2] h a b
  show ?thesis by simp
qed

section \<open>Screen requirements: results\<close>

lemma show_nat_small: "n < 10 \<Longrightarrow> show_nat n = [digit_char n]"
  by (subst show_nat.simps) simp

lemma show_nat_large: "10 \<le> n \<Longrightarrow> show_nat n = show_nat (n div 10) @ [digit_char (n mod 10)]"
  by (subst show_nat.simps) simp

lemma crs_step:
  "well_formed_screen r \<Longrightarrow>
   check_required_screens cfg (r # rs) =
     (if first_entry_ok cfg r then check_required_screens cfg rs
      else Inr (False, mismatch_reason cfg r))"
  by (auto simp: well_formed_screen_def first_entry_ok_def mismatch_reason_def split: option.splits)

lemma crs_find:
  "\<forall>r\<in>set rs. well_formed_screen r \<Longrightarrow>
   check_required_screens cfg rs =
     Inr (case find (\<lambda>r. \<not> first_entry_ok cfg r) rs of
        None \<Rightarrow> (True, ''All requirements met'')
      | Some r \<Rightarrow> (False, mismatch_reason cfg r))"
proof (induction rs)
  case Nil
  then show ?case by simp
next
  case (Cons r rs)
  then have "well_formed_screen r" by simp
  from crs_step [OF this] Cons show ?case by simp
qed

lemma matches_requirements_find:
  assumes "\<forall>r\<in>set (required_screens req). well_formed_screen r"
  shows "matches_requirements cfg req =
           Inr (if \<not> count_matches cfg req then (False, count_reason cfg req)
                else case find (\<lambda>r. \<not> first_entry_ok cfg r) (required_screens req) of
                       None \<Rightarrow> (True, ''All requirements met'')
                     | Some r \<Rightarrow> (False, mismatch_reason cfg r))"
  using crs_find [OF assms, of cfg]
  by (simp add: matches_requirements_def count_matches_def count_reason_def split: option.splits)

lemma find_SomeD: "find P xs = Some x \<Longrightarrow> x \<in> set xs \<and> P x"
  by (induction xs) (auto split: if_splits)

lemma find_distinct_key:
  "distinct (map f xs) \<Longrightarrow> (\<exists>s. find (\<lambda>s. f s = k) xs = Some s \<and> P s) \<longleftrightarrow> (\<exists>s\<in>set xs. f s = k \<and> P s)"
proof (induction xs)
  case Nil
  then show ?case by simp
next
  case (Cons x xs)
  then show ?case by (cases "f x = k") (auto simp: image_iff)
qed

lemma first_entry_ok_distinct:
  assumes "distinct (map sc_display_number cfg)"
  shows "first_entry_ok cfg r \<longleftrightarrow>
    (\<exists>s\<in>set cfg. sc_display_number s = the (rs_display_number r) \<and> sc_orientation s = the (rs_orientation r))"
proof -
  have "first_entry_ok cfg r \<longleftrightarrow>
     (\<exists>s. find (\<lambda>s. sc_display_number s = the (rs_display_number r)) cfg = Some s
          \<and> sc_orientation s = the (rs_orientation r))"
    by (simp add: first_entry_ok_def split: option.splits)
  also have "\<dots> \<longleftrightarrow> (\<exists>s\<in>set cfg. sc_display_number s = the (rs_display_number r) \<and> sc_orientation s = the (rs_orientation r))"
    by (rule find_distinct_key [OF assms])
  finally show ?thesis .
qed

text \<open>
  C5 (as amended). For requirements whose screens all carry a display number and an
  orientation, \<open>matches_requirements\<close> fails with the count message when a specified
  \<open>total_screens\<close> differs from the number of entries; otherwise it fails at the first
  required screen, in order, for which the first configuration entry with that display
  number is missing or has another orientation, naming that display; otherwise it
  succeeds. So it returns \<open>True\<close> exactly when the count matches and every required
  screen is met by the first entry with its display number. Where the display numbers of
  the configuration are distinct, that is: by some entry with that display number and
  exactly that orientation.
\<close>

theorem matches_requirements_first_entry:
  "(\<forall>r\<in>set (required_screens req). well_formed_screen r) \<longrightarrow>
     matches_requirements cfg req =
       Inr (if \<not> count_matches cfg req then (False, count_reason cfg req)
            else case find (\<lambda>r. \<not> first_entry_ok cfg r) (required_screens req) of
                   None \<Rightarrow> (True, ''All requirements met'')
                 | Some r \<Rightarrow> (False, mismatch_reason cfg r))
     \<and> ((\<exists>reason. matches_requirements cfg req = Inr (True, reason)) \<longleftrightarrow>
          (count_matches cfg req \<and> (\<forall>r\<in>set (required_screens req). first_entry_ok cfg r)))
     \<and> (distinct (map sc_display_number cfg) \<longrightarrow>
          ((\<exists>reason. matches_requirements cfg req = Inr (True, reason)) \<longleftrightarrow>
           (count_matches cfg req \<and>
            (\<forall>r\<in>set (required_screens req). \<exists>s\<in>set cfg.
                sc_display_number s = the (rs_display_number r)
              \<and> sc_orientation s = the (rs_orientation r)))))"
proof (intro impI)
  assume wf: "\<forall>r\<in>set (required_screens req). well_formed_screen r"
  note eq = matches_requirements_find [OF wf, of cfg]
  have iff: "(\<exists>reason. matches_requirements cfg req = Inr (True, reason)) \<longleftrightarrow>
          (count_matches cfg req \<and> (\<forall>r\<in>set (required_screens req). first_entry_ok cfg r))"
    unfolding eq by (auto simp: find_None_iff dest: find_SomeD split: option.splits)
  have dist: "distinct (map sc_display_number cfg) \<longrightarrow>
          ((\<exists>reason. matches_requirements cfg req = Inr (True, reason)) \<longleftrightarrow>
           (count_matches cfg req \<and>
            (\<forall>r\<in>set (required_screens req). \<exists>s\<in>set cfg.
                sc_display_number s = the (rs_display_number r)
              \<and> sc_orientation s = the (rs_orientation r))))"
    unfolding iff by (simp add: first_entry_ok_distinct)
  from eq iff dist
  show "matches_requirements cfg req =
       Inr (if \<not> count_matches cfg req then (False, count_reason cfg req)
            else case find (\<lambda>r. \<not> first_entry_ok cfg r) (required_screens req) of
                   None \<Rightarrow> (True, ''All requirements met'')
                 | Some r \<Rightarrow> (False, mismatch_reason cfg r))
     \<and> ((\<exists>reason. matches_requirements cfg req = Inr (True, reason)) \<longleftrightarrow>
          (count_matches cfg req \<and> (\<forall>r\<in>set (required_screens req). first_entry_ok cfg r)))
     \<and> (distinct (map sc_display_number cfg) \<longrightarrow>
          ((\<exists>reason. matches_requirements cfg req = Inr (True, reason)) \<longleftrightarrow>
           (count_matches cfg req \<and>
            (\<forall>r\<in>set (required_screens req). \<exists>s\<in>set cfg.
                sc_display_number s = the (rs_display_number r)
              \<and> sc_orientation s = the (rs_orientation r)))))"
    by blast
qed

theorem matches_requirements_first_entry_witness:
  "well_formed_screen (req_entry 1 ''vertical'') \<and> well_formed_screen (req_entry 2 ''horizontal'')
   \<and> matches_requirements
        [cfg_entry 1 ''vertical'' ''monitor_a'', cfg_entry 2 ''horizontal'' ''monitor_b'']
        \<lparr> total_screens = Some 2,
          screens = Some [req_entry 1 ''vertical'', req_entry 2 ''horizontal''] \<rparr>
      = Inr (True, ''All requirements met'')
   \<and> matches_requirements
        [cfg_entry 1 ''vertical'' ''monitor_a'', cfg_entry 2 ''vertical'' ''monitor_b'']
        \<lparr> total_screens = Some 2,
          screens = Some [req_entry 1 ''vertical'', req_entry 2 ''horizontal''] \<rparr>
      = Inr (False, ''DISPLAY2 is vertical, but layout needs horizontal'')"
proof -
  let ?req = "\<lparr> total_screens = Some 2,
          screens = Some [req_entry 1 ''vertical'', req_entry 2 ''horizontal''] \<rparr>"
  have wf1: "well_formed_screen (req_entry 1 ''vertical'')"
    and wf2: "well_formed_screen (req_entry 2 ''horizontal'')"
    by (simp_all add: well_formed_screen_def req_entry_def)
  then have wf: "\<forall>r\<in>set (required_screens ?req). well_formed_screen r"
    by (simp add: required_screens_def)
  have a: "matches_requirements
        [cfg_entry 1 ''vertical'' ''monitor_a'', cfg_entry 2 ''horizontal'' ''monitor_b''] ?req
      = Inr (True, ''All requirements met'')"
    using matches_requirements_first_entry
      [of ?req "[cfg_entry 1 ''vertical'' ''monitor_a'', cfg_entry 2 ''horizontal'' ''monitor_b'']"] wf
    by (simp add: count_matches_def required_screens_def first_entry_ok_def cfg_entry_def
        req_entry_def)
  have b: "matches_requirements
        [cfg_entry 1 ''vertical'' ''monitor_a'', cfg_entry 2 ''vertical'' ''monitor_b''] ?req
      = Inr (False, ''DISPLAY2 is vertical, but layout needs horizontal'')"
    using matches_requirements_first_entry
      [of ?req "[cfg_entry 1 ''vertical'' ''monitor_a'', cfg_entry 2 ''vertical'' ''monitor_b'']"] wf
    by (simp add: count_matches_def required_screens_def first_entry_ok_def mismatch_reason_def
        cfg_entry_def req_entry_def show_int_def show_nat_small digit_char_def)
  from wf1 wf2 a b show ?thesis by simp
qed

text \<open>
  The claim as first stated fails where two entries share a display number: the count
  is right and the second entry has display 1 and the required orientation, yet the
  check looks at the first entry only and fails.
\<close>

theorem matches_requirements_some_entry_counterexample:
  "matches_requirements
     [cfg_entry 1 ''vertical'' ''monitor_a'', cfg_entry 1 ''horizontal'' ''monitor_b'']
     \<lparr> total_screens = Some 2, screens = Some [req_entry 1 ''horizontal''] \<rparr>
     = Inr (False, ''DISPLAY1 is vertical, but layout needs horizontal'')
   \<and> int (length [cfg_entry 1 ''vertical'' ''monitor_a'', cfg_entry 1 ''horizontal'' ''monitor_b'']) = 2
   \<and> Some (sc_display_number (cfg_entry 1 ''horizontal'' ''monitor_b''))
       = rs_display_number (req_entry 1 ''horizontal'')
   \<and> Some (sc_orientation (cfg_entry 1 ''horizontal'' ''monitor_b''))
       = rs_orientation (req_entry 1 ''horizontal'')"
  by (simp add: matches_requirements_def required_screens_def cfg_entry_def req_entry_def
      show_int_def show_nat_small digit_char_def)

section \<open>Layout activation: results\<close>

text \<open>
  C2. \<open>activate_layout\<close> is guarded and all-or-nothing. With a layout already active
  the call returns a result with \<open>success = False\<close> and the layout manager is unchanged.
  Whenever the call raises, the layout manager is unchanged and no layout is active
  afterwards; and it does raise, from the inactive state, when the file is missing, when
  its structure is invalid, and when the screen requirements are not matched.
\<close>

theorem activate_layout_all_or_nothing:
  "(active_layout lm \<noteq> None \<longrightarrow>
      snd (activate_layout env mm lm n) = lm
      \<and> (\<exists>r. fst (activate_layout env mm lm n) = Inr r \<and> \<not> success r))
   \<and> (\<forall>e. fst (activate_layout env mm lm n) = Inl e \<longrightarrow>
          snd (activate_layout env mm lm n) = lm
        \<and> active_layout (snd (activate_layout env mm lm n)) = None)
   \<and> (active_layout lm = None \<longrightarrow>
        (layout_files env (json_name n) = None \<longrightarrow>
           (\<exists>e. fst (activate_layout env mm lm n) = Inl e))
      \<and> (\<forall>d. layout_files env (json_name n) = Some (Json d) \<and> \<not> fst (validate_layout d) \<longrightarrow>
           (\<exists>e. fst (activate_layout env mm lm n) = Inl e))
      \<and> (\<forall>d reason. load_layout env n = Inr d \<and> can_apply_layout mm d = Inr (False, reason) \<longrightarrow>
           (\<exists>e. fst (activate_layout env mm lm n) = Inl e)))"
  by (auto simp: activate_layout_def load_layout_def Let_def
      split: option.splits sum.splits exn.splits prod.splits if_splits layout_file.splits)

theorem activate_layout_all_or_nothing_witness:
  "active_layout \<lparr> active_layout = Some coding_state \<rparr> \<noteq> None
   \<and> snd (activate_layout test_env two_monitors \<lparr> active_layout = Some coding_state \<rparr> ''wide'')
       = \<lparr> active_layout = Some coding_state \<rparr>
   \<and> fst (activate_layout test_env two_monitors inactive ''missing'')
       = Inl (LayoutError ''Cannot load layout: Layout file not found: layouts/missing.json'')
   \<and> snd (activate_layout test_env two_monitors inactive ''missing'') = inactive
   \<and> fst (activate_layout test_env two_monitors inactive ''broken'')
       = Inl (LayoutError
           ''Cannot load layout: Error loading layout: Invalid layout file: Missing required field: name'')
   \<and> snd (activate_layout test_env two_monitors inactive ''broken'') = inactive
   \<and> snd (activate_layout test_env two_monitors inactive ''wide'') = inactive
   \<and> snd (activate_layout test_env two_monitors inactive ''coding'')
       = \<lparr> active_layout = Some coding_state \<rparr>"
proof -
  let ?lm = "\<lparr> active_layout = Some coding_state \<rparr>"
  have h: "active_layout ?lm \<noteq> None" by simp
  from activate_layout_all_or_nothing [of ?lm test_env two_monitors "''wide''"] h
  have a: "snd (activate_layout test_env two_monitors ?lm ''wide'') = ?lm" by blast
  have m: "fst (activate_layout test_env two_monitors inactive ''missing'')
       = Inl (LayoutError ''Cannot load layout: Layout file not found: layouts/missing.json'')"
    by code_simp
  from activate_layout_all_or_nothing [of inactive test_env two_monitors "''missing''"] m
  have m': "snd (activate_layout test_env two_monitors inactive ''missing'') = inactive" by blast
  have b: "fst (activate_layout test_env two_monitors inactive ''broken'')
       = Inl (LayoutError
           ''Cannot load layout: Error loading layout: Invalid layout file: Missing required field: name'')"
    by code_simp
  from activate_layout_all_or_nothing [of inactive test_env two_monitors "''broken''"] b
  have b': "snd (activate_layout test_env two_monitors inactive ''broken'') = inactive" by blast
  have w: "snd (activate_layout test_env two_monitors inactive ''wide'') = inactive"
    by code_simp
  have c: "snd (activate_layout test_env two_monitors inactive ''coding'') = ?lm"
    by code_simp
  from h a m m' b b' w c show ?thesis by simp
qed

section \<open>Validity check and rule resolution: results\<close>

lemma run_op_inactive: "active_layout lm = None \<Longrightarrow> run_op op lm = lm"
  by (cases op) (simp_all add: deactivate_layout_def check_active_layout_validity_def)

lemma run_ops_inactive: "active_layout lm = None \<Longrightarrow> run_ops ops lm = lm"
  unfolding run_ops_def by (induction ops) (simp_all add: run_op_inactive)

lemma get_active_rules_inactive: "active_layout lm = None \<Longrightarrow> get_active_rules uuids lm = Inr []"
  by (simp add: get_active_rules_def)

text \<open>
  C3. \<open>check_active_layout_validity\<close> returns \<open>True\<close> and changes nothing when no
  layout is active or when the stored requirements of the active layout match the
  current screen configuration. When they do not match it returns \<open>False\<close> and empties
  the active slot, after which \<open>get_active_rules\<close> returns the empty list however many
  deactivations and validity checks follow, until a layout is activated again.
\<close>

theorem check_validity_revokes:
  "(active_layout lm = None \<longrightarrow> check_active_layout_validity mm lm = (Inr True, lm))
   \<and> (\<forall>al reason. active_layout lm = Some al \<and> can_apply_layout mm (al_data al) = Inr (True, reason) \<longrightarrow>
         check_active_layout_validity mm lm = (Inr True, lm))
   \<and> (\<forall>al reason. active_layout lm = Some al \<and> can_apply_layout mm (al_data al) = Inr (False, reason) \<longrightarrow>
         fst (check_active_layout_validity mm lm) = Inr False
       \<and> active_layout (snd (check_active_layout_validity mm lm)) = None
       \<and> (\<forall>ops uuids. get_active_rules uuids (run_ops ops (snd (check_active_layout_validity mm lm))) = Inr []))"
proof (intro conjI allI impI)
  show "check_active_layout_validity mm lm = (Inr True, lm)" if "active_layout lm = None"
    using that by (simp add: check_active_layout_validity_def)
next
  fix al reason
  assume "active_layout lm = Some al \<and> can_apply_layout mm (al_data al) = Inr (True, reason)"
  then show "check_active_layout_validity mm lm = (Inr True, lm)"
    by (simp add: check_active_layout_validity_def)
next
  fix al reason
  assume a: "active_layout lm = Some al \<and> can_apply_layout mm (al_data al) = Inr (False, reason)"
  then show r: "fst (check_active_layout_validity mm lm) = Inr False"
    by (simp add: check_active_layout_validity_def)
  from a show n: "active_layout (snd (check_active_layout_validity mm lm)) = None"
    by (simp add: check_active_layout_validity_def deactivate_layout_def)
  fix ops uuids
  from n show "get_active_rules uuids (run_ops ops (snd (check_active_layout_validity mm lm))) = Inr []"
    by (simp add: run_ops_inactive get_active_rules_inactive)
qed







theorem check_validity_revokes_witness:
  "active_layout \<lparr> active_layout = Some coding_state \<rparr> = Some coding_state
   \<and> can_apply_layout one_monitor (al_data coding_state)
       = Inr (False, ''Need exactly 2 screen(s), but 1 connected'')
   \<and> fst (check_active_layout_validity one_monitor \<lparr> active_layout = Some coding_state \<rparr>) = Inr False
   \<and> active_layout (snd (check_active_layout_validity one_monitor
        \<lparr> active_layout = Some coding_state \<rparr>)) = None
   \<and> get_active_rules fixed_uuids
        (run_ops [Op_check_validity two_monitors, Op_deactivate]
          (snd (check_active_layout_validity one_monitor \<lparr> active_layout = Some coding_state \<rparr>)))
       = Inr []
   \<and> check_active_layout_validity two_monitors \<lparr> active_layout = Some coding_state \<rparr>
       = (Inr True, \<lparr> active_layout = Some coding_state \<rparr>)"
proof -
  let ?lm = "\<lparr> active_layout = Some coding_state \<rparr>"
  have a: "active_layout ?lm = Some coding_state" by simp
  have c: "can_apply_layout one_monitor (al_data coding_state)
       = Inr (False, ''Need exactly 2 screen(s), but 1 connected'')"
    by code_simp
  have c2: "can_apply_layout two_monitors (al_data coding_state) = Inr (True, ''All requirements met'')"
    by code_simp
  note t = check_validity_revokes [of ?lm one_monitor]
  from t a c have r1: "fst (check_active_layout_validity one_monitor ?lm) = Inr False" by blast
  from t a c have r2: "active_layout (snd (check_active_layout_validity one_monitor ?lm)) = None"
    by blast
  from t a c have r3: "get_active_rules fixed_uuids
        (run_ops [Op_check_validity two_monitors, Op_deactivate]
          (snd (check_active_layout_validity one_monitor ?lm))) = Inr []"
    by blast
  from check_validity_revokes [of ?lm two_monitors] a c2
  have r4: "check_active_layout_validity two_monitors ?lm = (Inr True, ?lm)" by blast
  from a c r1 r2 r3 r4 show ?thesis by simp
qed



section \<open>Rule matching: results\<close>




lemma py_strip_Nil [simp]: "py_strip [] = []"
  by (simp add: py_strip_def)

lemma py_lower_Nil_iff [simp]: "py_lower s = [] \<longleftrightarrow> s = []"
  by (simp add: py_lower_def)






section \<open>The window state machine: results\<close>

text \<open>
  C7. \<open>apply_window_rule\<close> is a no-op on a window that is already in the desired
  state: when the window is on the target monitor and, if fullscreen is requested, it is
  fullscreen; if only maximize is requested, it is maximized and not fullscreen; if
  neither is requested, it is neither, then \<open>is_window_in_correct_state\<close> holds and the
  call returns \<open>changed = False\<close> with no operations, and the run (the state of the
  windowing system and the operations issued) is unchanged.
\<close>

theorem apply_window_rule_noop:
  "is_window_on_monitor api mm (fst s) hwnd monitor_id
   \<and> (fs \<longrightarrow> is_window_fullscreen api (fst s) hwnd)
   \<and> (\<not> fs \<and> mx \<longrightarrow> is_window_maximized api (fst s) hwnd \<and> \<not> is_window_fullscreen api (fst s) hwnd)
   \<and> (\<not> fs \<and> \<not> mx \<longrightarrow> \<not> is_window_maximized api (fst s) hwnd \<and> \<not> is_window_fullscreen api (fst s) hwnd)
   \<longrightarrow> is_window_in_correct_state api mm (fst s) hwnd monitor_id mx fs
     \<and> apply_window_rule api mm s hwnd monitor_id mx fs
         = (Inr \<lparr> changed = False, operations = [] \<rparr>, s)"
  by (auto simp: apply_window_rule_def is_window_in_correct_state_def Let_def split: option.splits)

theorem apply_window_rule_noop_witness:
  "is_window_on_monitor sim_api two_monitors (fst desk) 9 ''monitor_b''
   \<and> is_window_maximized sim_api (fst desk) 9
   \<and> \<not> is_window_fullscreen sim_api (fst desk) 9
   \<and> apply_window_rule sim_api two_monitors desk 9 ''monitor_b'' True False
       = (Inr \<lparr> changed = False, operations = [] \<rparr>, desk)
   \<and> fst (apply_window_rule sim_api two_monitors desk 8 ''monitor_b'' True False)
       = Inr \<lparr> changed = True, operations = [''move'', ''maximize''] \<rparr>"
proof -
  have a: "is_window_on_monitor sim_api two_monitors (fst desk) 9 ''monitor_b''" by code_simp
  have b: "is_window_maximized sim_api (fst desk) 9" by code_simp
  have c: "\<not> is_window_fullscreen sim_api (fst desk) 9" by code_simp
  from apply_window_rule_noop [of sim_api two_monitors desk 9 "''monitor_b''" False True] a b c
  have d: "apply_window_rule sim_api two_monitors desk 9 ''monitor_b'' True False
       = (Inr \<lparr> changed = False, operations = [] \<rparr>, desk)" by simp
  have e: "fst (apply_window_rule sim_api two_monitors desk 8 ''monitor_b'' True False)
       = Inr \<lparr> changed = True, operations = [''move'', ''maximize''] \<rparr>" by code_simp
  from a b c d e show ?thesis by simp
qed

section \<open>The rule application pass: results\<close>

lemma atw_targets:
  "map attempt_target (fst (snd (apply_to_window awr rule w acc))) =
     map attempt_target (fst (snd acc)) @ (if attemptable w then [(rr_rule_id rule, w_hwnd w)] else [])"
  by (auto simp: apply_to_window_def Let_def attemptable_def attempt_target_def
      split: prod.splits option.splits sum.splits)



lemma fold_atw_targets:
  "map attempt_target (fst (snd (fold (apply_to_window awr rule) ws acc))) =
     map attempt_target (fst (snd acc))
       @ map (\<lambda>w. (rr_rule_id rule, w_hwnd w)) (filter attemptable ws)"
  by (induction ws arbitrary: acc) (simp_all add: atw_targets)



lemma apply_rule_targets:
  "map attempt_target (fst (snd (apply_rule awr mm windows rule acc))) =
     map attempt_target (fst (snd acc)) @ rule_targets mm windows rule"
  by (cases acc) (auto simp: apply_rule_def Let_def rule_targets_def fold_atw_targets filter_empty_conv)






lemma loop_targets:
  "map attempt_target (fst (snd (apply_rules_loop awr mm windows rules acc))) =
     map attempt_target (fst (snd acc)) @ concat (map (rule_targets mm windows) rules)"
  unfolding apply_rules_loop_def
  by (induction rules arbitrary: acc) (simp_all add: apply_rule_targets)







lemma find_Some_split:
  "find P xs = Some x \<Longrightarrow> \<exists>pre post. xs = pre @ x # post \<and> P x \<and> (\<forall>p\<in>set pre. \<not> P p)"
proof (induction xs)
  case Nil
  then show ?case by simp
next
  case (Cons a xs)
  show ?case
  proof (cases "P a")
    case True
    with Cons.prems have "a = x" by simp
    with True have "a # xs = [] @ x # xs \<and> P x \<and> (\<forall>p\<in>set []. \<not> P p)" by simp
    then show ?thesis by blast
  next
    case False
    with Cons.prems have "find P xs = Some x" by simp
    from Cons.IH [OF this] obtain pre post where
      "xs = pre @ x # post" "P x" "\<forall>p\<in>set pre. \<not> P p" by blast
    with False have "a # xs = (a # pre) @ x # post \<and> P x \<and> (\<forall>p\<in>set (a # pre). \<not> P p)" by simp
    then show ?thesis by blast
  qed
qed

lemma apply_rules_unfold:
  assumes "get_active_rules uuids lm = Inr rs"
    and "get_all_windows api (fst s) (detect_monitors api (fst s) mm0) = Inr ws"
  shows "fst (apply_rules api uuids mm0 (Some lm) s) =
           Inr (fst (apply_rules_loop (apply_window_rule api (detect_monitors api (fst s) mm0))
                  (detect_monitors api (fst s) mm0) ws rs (zero_results, [], s)))"
    and "fst (snd (apply_rules api uuids mm0 (Some lm) s)) =
           fst (snd (apply_rules_loop (apply_window_rule api (detect_monitors api (fst s) mm0))
                  (detect_monitors api (fst s) mm0) ws rs (zero_results, [], s)))"
  using assms
  by (auto simp: apply_rules_def Let_def apply_rules_loop_def split: prod.splits)

text \<open>
  C1 (as amended). A pass of \<open>apply_rules\<close> goes through the resolved rules in order
  and, for each rule whose target monitor is connected, attempts the rule on every
  enumerated window that matches it and is neither minimized, nor without a title, nor
  the desktop window, in enumeration order. So a window that matches several rules is
  handled once for each of them, in rule order, in the same pass. First match wins is
  what \<open>find_matching_rule_for_window\<close> does: it returns the first rule of the list
  that matches the window, and \<open>None\<close> exactly when no rule matches.
\<close>

theorem apply_rules_every_matching_rule:
  "(lmo = Some lm \<and> get_active_rules uuids lm = Inr rs
      \<and> get_all_windows api (fst s) (detect_monitors api (fst s) mm0) = Inr ws \<longrightarrow>
      map attempt_target (fst (snd (apply_rules api uuids mm0 lmo s))) =
        concat (map (rule_targets (detect_monitors api (fst s) mm0) ws) rs))
   \<and> (find_matching_rule_for_window w lrules = Some r \<longrightarrow>
        (\<exists>pre post. lrules = pre @ r # post \<and> layout_rule_matches w r
           \<and> (\<forall>p\<in>set pre. \<not> layout_rule_matches w p)))
   \<and> ((find_matching_rule_for_window w lrules = None) = (\<forall>r\<in>set lrules. \<not> layout_rule_matches w r))"
proof (intro conjI impI)
  assume a: "lmo = Some lm \<and> get_active_rules uuids lm = Inr rs
      \<and> get_all_windows api (fst s) (detect_monitors api (fst s) mm0) = Inr ws"
  then have "fst (snd (apply_rules api uuids mm0 lmo s)) =
           fst (snd (apply_rules_loop (apply_window_rule api (detect_monitors api (fst s) mm0))
                  (detect_monitors api (fst s) mm0) ws rs (zero_results, [], s)))"
    using apply_rules_unfold(2) [of uuids lm rs api s mm0 ws] by simp
  then show "map attempt_target (fst (snd (apply_rules api uuids mm0 lmo s))) =
        concat (map (rule_targets (detect_monitors api (fst s) mm0) ws) rs)"
    by (simp add: loop_targets)
next
  assume "find_matching_rule_for_window w lrules = Some r"
  then show "\<exists>pre post. lrules = pre @ r # post \<and> layout_rule_matches w r
           \<and> (\<forall>p\<in>set pre. \<not> layout_rule_matches w p)"
    unfolding find_matching_rule_for_window_def by (rule find_Some_split)
next
  show "(find_matching_rule_for_window w lrules = None) = (\<forall>r\<in>set lrules. \<not> layout_rule_matches w r)"
    by (auto simp: find_matching_rule_for_window_def find_None_iff)
qed


theorem apply_rules_every_matching_rule_witness:
  "get_active_rules fixed_uuids \<lparr> active_layout = Some coding_state \<rparr>
     = Inr [test_resolved ''exe'' ''chrome.exe'' ''monitor_b'' True False]
   \<and> get_all_windows sim_api (fst desk) (detect_monitors sim_api (fst desk) two_monitors)
     = Inr [test_window 8 ''Chrome'' (Some ''chrome.exe'') False,
            test_window 9 ''Notes'' (Some ''notepad.exe'') False]
   \<and> map attempt_target (fst (snd (apply_rules sim_api fixed_uuids two_monitors
        (Some \<lparr> active_layout = Some coding_state \<rparr>) desk)))
     = [(''rule_chrome.exe'', 8)]
   \<and> find_matching_rule_for_window (test_window 8 ''Chrome'' (Some ''chrome.exe'') False)
        (stored_rules dual_state) = Some (test_rule ''exe'' ''chrome.exe'' 2)
   \<and> layout_rule_matches (test_window 8 ''Chrome'' (Some ''chrome.exe'') False)
        (test_rule ''exe'' ''chrome.exe'' 2)"
proof -
  let ?lm = "\<lparr> active_layout = Some coding_state \<rparr>"
  let ?rs = "[test_resolved ''exe'' ''chrome.exe'' ''monitor_b'' True False]"
  let ?ws = "[test_window 8 ''Chrome'' (Some ''chrome.exe'') False,
              test_window 9 ''Notes'' (Some ''notepad.exe'') False]"
  let ?w = "test_window 8 ''Chrome'' (Some ''chrome.exe'') False"
  let ?r = "test_rule ''exe'' ''chrome.exe'' 2"
  have g: "get_active_rules fixed_uuids ?lm = Inr ?rs" by code_simp
  have w: "get_all_windows sim_api (fst desk) (detect_monitors sim_api (fst desk) two_monitors) = Inr ?ws"
    by code_simp
  have f: "find_matching_rule_for_window ?w (stored_rules dual_state) = Some ?r" by code_simp
  note t = apply_rules_every_matching_rule
    [of "Some ?lm" ?lm fixed_uuids ?rs sim_api desk two_monitors ?ws ?w "stored_rules dual_state" ?r]
  from t g w have "map attempt_target (fst (snd (apply_rules sim_api fixed_uuids two_monitors
        (Some ?lm) desk))) =
      concat (map (rule_targets (detect_monitors sim_api (fst desk) two_monitors) ?ws) ?rs)"
    by blast
  moreover have "concat (map (rule_targets (detect_monitors sim_api (fst desk) two_monitors) ?ws) ?rs)
      = [(''rule_chrome.exe'', 8)]" by code_simp
  ultimately have a: "map attempt_target (fst (snd (apply_rules sim_api fixed_uuids two_monitors
        (Some ?lm) desk))) = [(''rule_chrome.exe'', 8)]" by simp
  from t f have m: "layout_rule_matches ?w ?r" by blast
  from g w a f m show ?thesis by simp
qed

text \<open>
  The claim as first stated fails where two rules match the same window: both are
  applied to it in one pass, although the first of them is the first match.
\<close>

theorem apply_rules_second_rule_counterexample:
  "map attempt_target (fst (snd (apply_rules sim_api fixed_uuids two_monitors
        (Some \<lparr> active_layout = Some dual_state \<rparr>) desk)))
     = [(''rule_chrome.exe'', 8), (''rule_chrome'', 8)]
   \<and> fst (apply_rules sim_api fixed_uuids two_monitors (Some \<lparr> active_layout = Some dual_state \<rparr>) desk)
     = Inr \<lparr> applied = 2, skipped_no_monitor = 0, skipped_no_window = 0, failed = 0, details = [] \<rparr>
   \<and> find_matching_rule_for_window (test_window 8 ''Chrome'' (Some ''chrome.exe'') False)
        (stored_rules dual_state) = Some (test_rule ''exe'' ''chrome.exe'' 2)"
  by code_simp



end
